theory Spec2Isabelle
  imports Main
begin

section \<open>Go strings and the standard-library functions the program calls\<close>

text \<open>
  A Go \<open>string\<close> is a byte sequence: \<open>string\<close> (a \<open>char list\<close>) here. Go's \<open>int\<close> is
  the 64-bit signed integer of the usual build targets; it is modelled as \<open>int\<close> with
  the range written out where a conversion checks it.
\<close>

text \<open>
  \<open>strings.Split(s, sep)\<close> for a one-byte separator (the program only splits on
  \<open>":"\<close> and \<open>"."\<close>): the pieces between the separators, \<open>[""]\<close> for the empty string.
\<close>

fun strings_Split :: "string \<Rightarrow> char \<Rightarrow> string list" where
  "strings_Split [] sep = [[]]"
| "strings_Split (c # cs) sep =
     (if c = sep then [] # strings_Split cs sep
      else (case strings_Split cs sep of
              [] \<Rightarrow> [[c]]
            | piece # pieces \<Rightarrow> (c # piece) # pieces))"

text \<open>
  \<open>strings.Replace(s, old, new, 1)\<close>: the first occurrence of \<open>old\<close> in \<open>s\<close> replaced by
  \<open>new\<close>; \<open>s\<close> itself when \<open>old\<close> does not occur. (An empty \<open>old\<close> matches at the start.)
\<close>

fun strings_Replace1 :: "string \<Rightarrow> string \<Rightarrow> string \<Rightarrow> string" where
  "strings_Replace1 [] old new = (if old = [] then new else [])"
| "strings_Replace1 (c # cs) old new =
     (if take (length old) (c # cs) = old then new @ drop (length old) (c # cs)
      else c # strings_Replace1 cs old new)"

definition isDigit :: "char \<Rightarrow> bool" where
  "isDigit c = (c \<in> set ''0123456789'')"

definition digitVal :: "char \<Rightarrow> nat" where
  "digitVal c = of_char c - 48"

definition decimalVal :: "string \<Rightarrow> nat" where
  "decimalVal s = foldl (\<lambda>n c. n * 10 + digitVal c) 0 s"

text \<open>\<open>fmt.Sprintf("%d", n)\<close>: the decimal digits of \<open>n\<close>, with a minus sign when negative.\<close>

fun natDigits :: "nat \<Rightarrow> string" where
  "natDigits n =
     (if n < 10 then [''0123456789'' ! n]
      else natDigits (n div 10) @ [''0123456789'' ! (n mod 10)])"

declare natDigits.simps [simp del]

definition Sprintf_d :: "int \<Rightarrow> string" where
  "Sprintf_d n = (if n < 0 then CHR ''-'' # natDigits (nat (- n)) else natDigits (nat n))"

text \<open>
  \<open>strconv.Atoi\<close>: an optional sign followed by at least one decimal digit; the value
  must fit the 64-bit \<open>int\<close>. The error is a \<open>*strconv.NumError\<close> that prints as
  \<open>strconv.Atoi: parsing "s": <reason>\<close>; the quoting of \<open>s\<close> is written for strings
  without quote, backslash or control bytes, which is all the program passes (the digits
  of a URL port).
\<close>

datatype NumError = ErrSyntax | ErrRange

definition isDecimal :: "string \<Rightarrow> bool" where
  "isDecimal s = (s \<noteq> [] \<and> list_all isDigit s)"

definition strconv_Atoi :: "string \<Rightarrow> NumError + int" where
  "strconv_Atoi s =
     (let signed = (s \<noteq> [] \<and> (hd s = CHR ''-'' \<or> hd s = CHR ''+''));
          body = (if signed then tl s else s)
      in if isDecimal body
         then let n = int (decimalVal body);
                  v = (if signed \<and> hd s = CHR ''-'' then - n else n)
              in if v < - (2 ^ 63) \<or> 2 ^ 63 - 1 < v then Inl ErrRange else Inr v
         else Inl ErrSyntax)"

definition NumError_Error :: "string \<Rightarrow> NumError \<Rightarrow> string" where
  "NumError_Error s e =
     ''strconv.Atoi: parsing '' @ [CHR 0x22] @ s @ [CHR 0x22] @ '': '' @
     (case e of ErrSyntax \<Rightarrow> ''invalid syntax'' | ErrRange \<Rightarrow> ''value out of range'')"

text \<open>
  The struct \<open>net/url.URL\<close>; \<open>User\<close> is the \<open>*Userinfo\<close> (\<open>None\<close> for \<open>nil\<close>), kept as
  the text it stands for. \<open>url.Parse\<close> itself is the standard library's; the program's
  functions take it as the parameter \<open>url_Parse\<close>, which returns the parsed URL or the
  text of the parse error.
\<close>

record URL =
  Scheme :: string
  Opaque :: string
  User :: "string option"
  Host :: string
  Path :: string
  RawPath :: string
  OmitHost :: bool
  ForceQuery :: bool
  RawQuery :: string
  Fragment :: string
  RawFragment :: string

text \<open>
  \<open>(*URL).Port()\<close>: the part of \<open>Host\<close> after its last colon when that part is made of
  decimal digits only (\<open>validOptionalPort\<close>), the empty string otherwise and when \<open>Host\<close>
  has no colon.
\<close>

definition url_Port :: "URL \<Rightarrow> string" where
  "url_Port u =
     (let port = rev (takeWhile (\<lambda>c. c \<noteq> CHR '':'') (rev (Host u)))
      in if CHR '':'' \<in> set (Host u) \<and> list_all isDigit port then port else [])"

text \<open>A finite table standing for \<open>url.Parse\<close> on the inputs of an example.\<close>

definition url_Parse_table :: "(string \<times> URL) list \<Rightarrow> string \<Rightarrow> string + URL" where
  "url_Parse_table tbl s =
     (case map_of tbl s of Some u \<Rightarrow> Inr u | None \<Rightarrow> Inl ''parse error'')"

section \<open>The address parser: parseKubernetesServiceURL\<close>

type_synonym resourceType = string

definition resourceTypePod :: resourceType where "resourceTypePod = ''pods''"
definition resourceTypeSvc :: resourceType where "resourceTypeSvc = ''services''"
definition resourceTypeDeployment :: resourceType where "resourceTypeDeployment = ''deployments''"
definition resourceTypeStatefulSet :: resourceType where "resourceTypeStatefulSet = ''statefulsets''"
definition resourceTypeDaemonSet :: resourceType where "resourceTypeDaemonSet = ''daemonsets''"
definition resourceTypeReplicaSet :: resourceType where "resourceTypeReplicaSet = ''replicasets''"

text \<open>
  \<open>resourceNameRegex\<close> is \<open>^[a-z0-9]([-a-z0-9]*[a-z0-9])?$\<close>: a non-empty string of
  lower-case letters, digits and hyphens whose first and last bytes are not hyphens.
\<close>

definition isLowerAlnum :: "char \<Rightarrow> bool" where
  "isLowerAlnum c = (c \<in> set ''abcdefghijklmnopqrstuvwxyz0123456789'')"

definition resourceNameRegex_MatchString :: "string \<Rightarrow> bool" where
  "resourceNameRegex_MatchString s =
     (s \<noteq> [] \<and> isLowerAlnum (hd s) \<and> isLowerAlnum (last s) \<and>
      list_all (\<lambda>c. isLowerAlnum c \<or> c = CHR ''-'') s)"

record forwardTarget =
  namespace :: string
  name :: string
  kind :: resourceType
  port :: int

definition unsupportedResourceType :: "string \<Rightarrow> string" where
  "unsupportedResourceType token =
     ''unsupported resource type: '' @ token @
     '' (supported: svc, pod, deploy, deployment, sts, statefulset, ds, daemonset, rs, replicaset)''"

text \<open>
  The parser of the current variant (the one with the six resource kinds). The result is
  Go's pair \<open>(*forwardTarget, error)\<close>; the pointer is \<open>nil\<close> on every error return, so
  the pair is a sum: \<open>Inl\<close> the error text, \<open>Inr\<close> the descriptor.
\<close>

definition parseKubernetesServiceURL ::
    "(string \<Rightarrow> string + URL) \<Rightarrow> string \<Rightarrow> string + forwardTarget" where
  "parseKubernetesServiceURL url_Parse rawURL =
     (case url_Parse rawURL of
        Inl err \<Rightarrow> Inl (''invalid URL: '' @ err)
      | Inr parsedURL \<Rightarrow>
          let host = hd (strings_Split (Host parsedURL) CHR '':'');
              parts = strings_Split host CHR ''.''
          in if length parts < 3
             then Inl (''invalid Kubernetes service URL format: '' @ rawURL)
             else
               let portStr = url_Port parsedURL
               in (case (if portStr = []
                         then Inr (if Scheme parsedURL = ''https'' then 443 else 80)
                         else strconv_Atoi portStr) of
                     Inl err \<Rightarrow> Inl (''invalid port in URL: '' @ NumError_Error portStr err)
                   | Inr port' \<Rightarrow>
                       let resourceName = parts ! 0;
                           namespace' = parts ! 1
                       in (case (if parts ! 2 = ''svc'' then Inr resourceTypeSvc
                                 else if parts ! 2 = ''pod'' then Inr resourceTypePod
                                 else if parts ! 2 = ''deploy'' \<or> parts ! 2 = ''deployment''
                                   then Inr resourceTypeDeployment
                                 else if parts ! 2 = ''sts'' \<or> parts ! 2 = ''statefulset''
                                   then Inr resourceTypeStatefulSet
                                 else if parts ! 2 = ''ds'' \<or> parts ! 2 = ''daemonset''
                                   then Inr resourceTypeDaemonSet
                                 else if parts ! 2 = ''rs'' \<or> parts ! 2 = ''replicaset''
                                   then Inr resourceTypeReplicaSet
                                 else Inl (unsupportedResourceType (parts ! 2))) of
                             Inl err \<Rightarrow> Inl err
                           | Inr kind' \<Rightarrow>
                               if \<not> resourceNameRegex_MatchString resourceName
                               then Inl (''invalid resource name: '' @ resourceName)
                               else if \<not> resourceNameRegex_MatchString namespace'
                               then Inl (''invalid namespace: '' @ namespace')
                               else Inr \<lparr>namespace = namespace', name = resourceName,
                                         kind = kind', port = port'\<rparr>)))"

text \<open>
  The parser of the historical variant (kinds \<open>svc\<close> and \<open>pod\<close> only), the one the
  flag-based \<open>main\<close> calls. Its descriptor type \<open>resource\<close> has the same four fields as
  \<open>forwardTarget\<close>, so it shares the record. The two tests of the third label are
  independent \<open>if\<close>s with no \<open>else\<close>: any other label leaves \<open>kind\<close> at the empty string.
\<close>

definition parseKubernetesServiceURL_historical ::
    "(string \<Rightarrow> string + URL) \<Rightarrow> string \<Rightarrow> string + forwardTarget" where
  "parseKubernetesServiceURL_historical url_Parse rawURL =
     (case url_Parse rawURL of
        Inl err \<Rightarrow> Inl (''invalid URL: '' @ err)
      | Inr parsedURL \<Rightarrow>
          let host = hd (strings_Split (Host parsedURL) CHR '':'');
              parts = strings_Split host CHR ''.''
          in if length parts < 3
             then Inl (''invalid Kubernetes service URL format: '' @ rawURL)
             else
               let portStr = url_Port parsedURL
               in (case (if portStr = []
                         then Inr (if Scheme parsedURL = ''https'' then 443 else 80)
                         else strconv_Atoi portStr) of
                     Inl err \<Rightarrow> Inl (''invalid port in URL: '' @ NumError_Error portStr err)
                   | Inr port' \<Rightarrow>
                       let resourceName = parts ! 0;
                           namespace' = parts ! 1;
                           kind0 = [];
                           kind1 = (if parts ! 2 = ''svc'' then resourceTypeSvc else kind0);
                           kind2 = (if parts ! 2 = ''pod'' then resourceTypePod else kind1)
                       in if \<not> resourceNameRegex_MatchString resourceName
                          then Inl (''invalid service name: '' @ resourceName)
                          else if \<not> resourceNameRegex_MatchString namespace'
                          then Inl (''invalid namespace: '' @ namespace')
                          else Inr \<lparr>namespace = namespace', name = resourceName,
                                    kind = kind2, port = port'\<rparr>))"

section \<open>The local URL handed to the request layer\<close>

text \<open>
  The flag-based \<open>main\<close> builds the local URL by textual replacement. The statements are
  kept in their order; the third one starts again from \<open>serviceURL\<close>, not from the
  \<open>localURL\<close> built so far, as the source does.
\<close>

definition main_localURL :: "string \<Rightarrow> forwardTarget \<Rightarrow> int \<Rightarrow> string" where
  "main_localURL serviceURL res localPort =
     (let localURL1 = strings_Replace1 serviceURL
                        (name res @ ''.'' @ namespace res @ ''.svc'') ''localhost'';
          localURL2 = strings_Replace1 localURL1
                        (name res @ ''.'' @ namespace res @ ''.svc.cluster.local'') ''localhost'';
          localURL3 = strings_Replace1 serviceURL
                        (name res @ ''.'' @ namespace res @ ''.pod'') ''localhost'';
          localURL4 = strings_Replace1 localURL3
                        (name res @ ''.'' @ namespace res @ ''.pod.cluster.local'') ''localhost'';
          localURL5 = strings_Replace1 localURL4
                        ('':'' @ Sprintf_d (port res)) ('':'' @ Sprintf_d localPort)
      in localURL5)"

text \<open>
  \<open>reconstructURL\<close> of the later \<open>main\<close> variants parses the URL and builds a new one
  from five of its fields; the fields it does not set have their zero values.
  \<open>url_String\<close> stands for the standard library's \<open>(*URL).String()\<close>.
\<close>

definition reconstructURL ::
    "(string \<Rightarrow> string + URL) \<Rightarrow> (URL \<Rightarrow> string) \<Rightarrow> string \<Rightarrow> int \<Rightarrow> string" where
  "reconstructURL url_Parse url_String originalURL localPort =
     (case url_Parse originalURL of
        Inl err \<Rightarrow> originalURL
      | Inr parsedURL \<Rightarrow>
          url_String \<lparr>Scheme = Scheme parsedURL,
                      Opaque = [],
                      User = None,
                      Host = ''localhost:'' @ Sprintf_d localPort,
                      Path = Path parsedURL,
                      RawPath = [],
                      OmitHost = False,
                      ForceQuery = False,
                      RawQuery = RawQuery parsedURL,
                      Fragment = Fragment parsedURL,
                      RawFragment = []\<rparr>)"

section \<open>The resource resolver: findTargetForServiceWithClient\<close>

text \<open>
  The Kubernetes objects, reduced to the fields the resolver reads. A Go
  \<open>map[string]string\<close> of labels is an association list (a \<open>nil\<close> map is \<open>[]\<close>); the
  \<open>*metav1.LabelSelector\<close> of a workload is an option (\<open>None\<close> for \<open>nil\<close>).
\<close>

record LabelSelectorRequirement =
  Key :: string
  Operator :: string
  Values :: "string list"

record LabelSelector =
  MatchLabels :: "(string \<times> string) list"
  MatchExpressions :: "LabelSelectorRequirement list"

record Service =
  Spec_Selector :: "(string \<times> string) list"

text \<open>
  \<open>appsv1.Deployment\<close>, \<open>StatefulSet\<close>, \<open>DaemonSet\<close> and \<open>ReplicaSet\<close> each carry
  \<open>Spec.Selector *metav1.LabelSelector\<close>; one record serves the four.
\<close>

record Workload =
  Selector :: "LabelSelector option"

type_synonym Deployment = Workload
type_synonym StatefulSet = Workload
type_synonym DaemonSet = Workload
type_synonym ReplicaSet = Workload

record Pod =
  ObjectMeta_Name :: string
  ObjectMeta_Namespace :: string
  ObjectMeta_Labels :: "(string \<times> string) list"

record PodList =
  Items :: "Pod list"

text \<open>
  The interface \<open>KubeClient\<close>. \<open>labels.Selector\<close> is an interface of the Kubernetes
  library, opaque to the program: the type parameter \<open>'sel\<close>. An error is the text it
  prints as.
\<close>

record 'sel KubeClient =
  GetService :: "string \<Rightarrow> string \<Rightarrow> string + Service"
  GetDeployment :: "string \<Rightarrow> string \<Rightarrow> string + Deployment"
  GetStatefulSet :: "string \<Rightarrow> string \<Rightarrow> string + StatefulSet"
  GetDaemonSet :: "string \<Rightarrow> string \<Rightarrow> string + DaemonSet"
  GetReplicaSet :: "string \<Rightarrow> string \<Rightarrow> string + ReplicaSet"
  ListPods :: "string \<Rightarrow> 'sel \<Rightarrow> string + PodList"

text \<open>
  The two conversions of the Kubernetes library that the resolver calls:
  \<open>labels.Set(m).AsSelector()\<close>, which cannot fail, and
  \<open>metav1.LabelSelectorAsSelector\<close>, which can.
\<close>

record 'sel apimachinery =
  labels_Set_AsSelector :: "(string \<times> string) list \<Rightarrow> 'sel"
  metav1_LabelSelectorAsSelector :: "LabelSelector option \<Rightarrow> string + 'sel"

record ForwardTarget =
  Name :: string
  Namespace :: string
  Kind :: resourceType
  Port :: int

text \<open>
  What the program does to its surroundings, in order: the calls on the client, the lines
  written to standard output, and the calls that open the tunnel.
\<close>

record requestURL =
  Resource :: string
  RequestNamespace :: string
  RequestName :: string
  SubResource :: string

datatype 'sel event =
    GetServiceCall string string
  | GetDeploymentCall string string
  | GetStatefulSetCall string string
  | GetDaemonSetCall string string
  | GetReplicaSetCall string string
  | ListPodsCall string 'sel
  | Printf string
  | Println_url requestURL
  | portforward_New requestURL "string list"
  | ForwardPorts

text \<open>
  \<open>*ForwardTarget\<close> is a pointer: descriptors live in a heap, a pointer is an index into
  it, and \<open>&ForwardTarget{...}\<close> appends a fresh cell. A pointer outside the heap stands
  for \<open>nil\<close>; dereferencing it panics, which is the result \<open>None\<close> below.
\<close>

record 'sel world =
  heap :: "ForwardTarget list"
  events :: "'sel event list"

definition emit :: "'sel event list \<Rightarrow> 'sel world \<Rightarrow> 'sel world" where
  "emit evs w = w\<lparr>events := events w @ evs\<rparr>"

text \<open>
  The \<open>switch res.Kind\<close> of the resolver: the client calls it makes, and either the error
  it returns with, or \<open>None\<close> for the \<open>default\<close> branch (return \<open>res, nil\<close>), or the
  selector it leaves in \<open>selector\<close>.
\<close>

definition workloadSelector ::
    "'sel apimachinery \<Rightarrow> string \<Rightarrow> ForwardTarget \<Rightarrow> string + Workload \<Rightarrow> string + 'sel option" where
  "workloadSelector lib what r got =
     (case got of
        Inl err \<Rightarrow>
          Inl (''failed to get '' @ what @ '' '' @ Name r @ '' in namespace '' @ Namespace r @
               '': '' @ err)
      | Inr workload \<Rightarrow>
          (case metav1_LabelSelectorAsSelector lib (Selector workload) of
             Inl err \<Rightarrow>
               Inl (''failed to convert '' @ what @ '' selector to labels selector: '' @ err)
           | Inr selector \<Rightarrow> Inr (Some selector)))"

definition selectorSwitch ::
    "'sel apimachinery \<Rightarrow> 'sel KubeClient \<Rightarrow> ForwardTarget \<Rightarrow>
     'sel event list \<times> (string + 'sel option)" where
  "selectorSwitch lib client r =
     (if Kind r = resourceTypeSvc then
        ([GetServiceCall (Namespace r) (Name r)],
         (case GetService client (Namespace r) (Name r) of
            Inl err \<Rightarrow>
              Inl (''failed to get service '' @ Name r @ '' in namespace '' @ Namespace r @
                   '': '' @ err)
          | Inr service \<Rightarrow> Inr (Some (labels_Set_AsSelector lib (Spec_Selector service)))))
      else if Kind r = resourceTypeDeployment then
        ([GetDeploymentCall (Namespace r) (Name r)],
         workloadSelector lib ''deployment'' r (GetDeployment client (Namespace r) (Name r)))
      else if Kind r = resourceTypeStatefulSet then
        ([GetStatefulSetCall (Namespace r) (Name r)],
         workloadSelector lib ''statefulset'' r (GetStatefulSet client (Namespace r) (Name r)))
      else if Kind r = resourceTypeDaemonSet then
        ([GetDaemonSetCall (Namespace r) (Name r)],
         workloadSelector lib ''daemonset'' r (GetDaemonSet client (Namespace r) (Name r)))
      else if Kind r = resourceTypeReplicaSet then
        ([GetReplicaSetCall (Namespace r) (Name r)],
         workloadSelector lib ''replicaset'' r (GetReplicaSet client (Namespace r) (Name r)))
      else ([], Inr None))"

text \<open>
  The resolver. Go returns the pair \<open>(*ForwardTarget, error)\<close>, and on every error return
  the pointer is the argument \<open>res\<close>, not \<open>nil\<close>: the result is the new world, the
  returned pointer and the error (\<open>None\<close> for \<open>nil\<close>).
\<close>

definition findTargetForServiceWithClient ::
    "'sel apimachinery \<Rightarrow> 'sel KubeClient \<Rightarrow> 'sel world \<Rightarrow> nat \<Rightarrow>
     ('sel world \<times> nat \<times> string option) option" where
  "findTargetForServiceWithClient lib client w res =
     (if length (heap w) \<le> res then None
      else
        let r = heap w ! res
        in (case selectorSwitch lib client r of
              (evs, Inl err) \<Rightarrow> Some (emit evs w, res, Some err)
            | (evs, Inr None) \<Rightarrow> Some (emit evs w, res, None)
            | (evs, Inr (Some selector)) \<Rightarrow>
                let w1 = emit (evs @ [ListPodsCall (Namespace r) selector]) w
                in (case ListPods client (Namespace r) selector of
                      Inl err \<Rightarrow>
                        Some (w1, res,
                              Some (''failed to list pods for '' @ Kind r @ '' '' @ Name r @
                                    '': '' @ err))
                    | Inr pods \<Rightarrow>
                        (case Items pods of
                           [] \<Rightarrow>
                             Some (w1, res,
                                   Some (''no pods found for '' @ Kind r @ '' '' @ Name r @
                                         '' in namespace '' @ Namespace r))
                         | pod # rest \<Rightarrow>
                             let targetName = ObjectMeta_Name pod;
                                 w2 = emit [Printf (''Found matching pod: '' @ targetName @
                                                    '' for '' @ Kind r @ '': '' @ Name r @
                                                    [CHR 0x0A])] w1;
                                 updatedTarget = length (heap w2);
                                 w3 = w2\<lparr>heap := heap w2 @
                                           [\<lparr>Name = targetName, Namespace = Namespace r,
                                             Kind = resourceTypePod, Port = Port r\<rparr>]\<rparr>
                             in Some (w3, updatedTarget, None)))))"

text \<open>
  \<open>findTargetForService\<close> wraps the clientset in \<open>RealKubeClient\<close> and calls the resolver;
  \<open>client\<close> is that wrapper.
\<close>

definition findTargetForService ::
    "'sel apimachinery \<Rightarrow> 'sel KubeClient \<Rightarrow> 'sel world \<Rightarrow> nat \<Rightarrow>
     ('sel world \<times> nat \<times> string option) option" where
  "findTargetForService lib client w res = findTargetForServiceWithClient lib client w res"

section \<open>The tunnel session: runPortForward\<close>

text \<open>
  The calls into \<open>client-go\<close> that can fail are outside the program; \<open>env\<close> says which
  of them fail and with what text. \<open>ForwardPorts_err\<close> is what \<open>fw.ForwardPorts()\<close>
  returns when the tunnel ends.
\<close>

record env =
  ClientConfig_err :: "string option"
  NewForConfig_err :: "string option"
  RoundTripperFor_err :: "string option"
  RESTClientFor_err :: "string option"
  portforward_New_err :: "string option"
  ForwardPorts_err :: "string option"

definition getKubernetesClient :: "env \<Rightarrow> string + unit" where
  "getKubernetesClient e =
     (case ClientConfig_err e of
        Some err \<Rightarrow> Inl (''failed to create Kubernetes config: '' @ err)
      | None \<Rightarrow>
          (case NewForConfig_err e of
             Some err \<Rightarrow> Inl (''failed to create Kubernetes client: '' @ err)
           | None \<Rightarrow> Inr ()))"

text \<open>
  \<open>runPortForward\<close> of the current variant. The result is the new world and the error
  returned; \<open>None\<close> is a panic on a \<open>nil\<close> descriptor. The tunnel is opened by
  \<open>portforward.New\<close> on the request URL
  \<open>Resource(target.Kind).Namespace(target.Namespace).Name(target.Name).SubResource("portforward")\<close>
  with the port pair \<open>localPort:target.Port\<close>, and run by \<open>ForwardPorts\<close>.
\<close>

definition runPortForward ::
    "env \<Rightarrow> 'sel apimachinery \<Rightarrow> 'sel KubeClient \<Rightarrow> 'sel world \<Rightarrow> nat \<Rightarrow> int \<Rightarrow>
     ('sel world \<times> string option) option" where
  "runPortForward e lib client w res localPort =
     (case getKubernetesClient e of
        Inl err \<Rightarrow> Some (w, Some (''failed to get Kubernetes client: '' @ err))
      | Inr clientset \<Rightarrow>
          if length (heap w) \<le> res then None
          else
            (case (if Kind (heap w ! res) = resourceTypeSvc
                   then findTargetForService lib client w res
                   else Some (w, res, None)) of
               None \<Rightarrow> None
             | Some (w1, updatedTarget, Some err) \<Rightarrow> Some (w1, Some err)
             | Some (w1, target, None) \<Rightarrow>
                 (case ClientConfig_err e of
                    Some err \<Rightarrow> Some (w1, Some (''failed to get REST config: '' @ err))
                  | None \<Rightarrow>
                 (case RoundTripperFor_err e of
                    Some err \<Rightarrow>
                      Some (w1, Some (''failed to create SPDY round tripper: '' @ err))
                  | None \<Rightarrow>
                 (case RESTClientFor_err e of
                    Some err \<Rightarrow> Some (w1, Some (''failed to RESTClientFor: '' @ err))
                  | None \<Rightarrow>
                      let t = heap w1 ! target;
                          url = \<lparr>Resource = Kind t, RequestNamespace = Namespace t,
                                 RequestName = Name t, SubResource = ''portforward''\<rparr>;
                          ports = [Sprintf_d localPort @ '':'' @ Sprintf_d (Port t)];
                          w2 = emit [Println_url url, portforward_New url ports] w1
                      in (case portforward_New_err e of
                            Some err \<Rightarrow>
                              Some (w2, Some (''failed to create port-forwarder: '' @ err))
                          | None \<Rightarrow> Some (emit [ForwardPorts] w2, ForwardPorts_err e)))))))"

text \<open>
  The callers of \<open>runPortForward\<close> (\<open>runWithSystemCurlNew\<close>, \<open>runWithCustomHTTPNew\<close> and
  their flag-based predecessors) first copy the parsed descriptor into a fresh
  \<open>ForwardTarget\<close>.
\<close>

definition newForwardTarget :: "forwardTarget \<Rightarrow> 'sel world \<Rightarrow> 'sel world \<times> nat" where
  "newForwardTarget res w =
     (w\<lparr>heap := heap w @
          [\<lparr>Name = name res, Namespace = namespace res, Kind = kind res, Port = port res\<rparr>]\<rparr>,
      length (heap w))"

section \<open>A cluster behind the client\<close>

text \<open>
  A cluster as the collaborator behind \<open>KubeClient\<close>: the stored objects by
  \<open>(namespace, name)\<close> and the pods in the order the API lists them.

  The selector that \<open>labels.Set(m).AsSelector()\<close> builds is \<open>internalSelector\<close>, a list of
  requirements, one \<open>key = value\<close> requirement for each entry of \<open>m\<close>; with no
  requirement it is \<open>labels.Everything()\<close>. A pod matches when its labels meet every
  requirement.
\<close>

type_synonym internalSelector = "(string \<times> string) list"

definition SelectorFromSet :: "(string \<times> string) list \<Rightarrow> internalSelector" where
  "SelectorFromSet ls = ls"

definition Matches :: "internalSelector \<Rightarrow> (string \<times> string) list \<Rightarrow> bool" where
  "Matches selector ls = list_all (\<lambda>(k, v). map_of ls k = Some v) selector"

record cluster =
  services :: "((string \<times> string) \<times> Service) list"
  deployments :: "((string \<times> string) \<times> Workload) list"
  statefulsets :: "((string \<times> string) \<times> Workload) list"
  daemonsets :: "((string \<times> string) \<times> Workload) list"
  replicasets :: "((string \<times> string) \<times> Workload) list"
  pods :: "Pod list"

definition getObject ::
    "string \<Rightarrow> ((string \<times> string) \<times> 'a) list \<Rightarrow> string \<Rightarrow> string \<Rightarrow> string + 'a" where
  "getObject what objs ns n =
     (case map_of objs (ns, n) of
        Some obj \<Rightarrow> Inr obj
      | None \<Rightarrow> Inl (what @ '' '' @ [CHR 0x22] @ n @ [CHR 0x22] @ '' not found''))"

definition podsInNamespace :: "cluster \<Rightarrow> string \<Rightarrow> Pod list" where
  "podsInNamespace cl ns = filter (\<lambda>p. ObjectMeta_Namespace p = ns) (pods cl)"

definition clusterClient :: "cluster \<Rightarrow> internalSelector KubeClient" where
  "clusterClient cl =
     \<lparr>GetService = getObject ''services'' (services cl),
      GetDeployment = getObject ''deployments.apps'' (deployments cl),
      GetStatefulSet = getObject ''statefulsets.apps'' (statefulsets cl),
      GetDaemonSet = getObject ''daemonsets.apps'' (daemonsets cl),
      GetReplicaSet = getObject ''replicasets.apps'' (replicasets cl),
      ListPods = (\<lambda>ns selector.
        Inr \<lparr>Items = filter (\<lambda>p. Matches selector (ObjectMeta_Labels p))
                        (podsInNamespace cl ns)\<rparr>)\<rparr>"

text \<open>
  The library over \<open>internalSelector\<close>: \<open>labels.Set(m).AsSelector()\<close> is
  \<open>SelectorFromSet\<close>. The conversion of a workload's selector,
  \<open>metav1.LabelSelectorAsSelector\<close>, stays a parameter.
\<close>

definition labelsLib ::
    "(LabelSelector option \<Rightarrow> string + internalSelector) \<Rightarrow> internalSelector apimachinery" where
  "labelsLib labelSelectorAsSelector =
     \<lparr>labels_Set_AsSelector = SelectorFromSet,
      metav1_LabelSelectorAsSelector = labelSelectorAsSelector\<rparr>"

section \<open>Cancellation: the stop channel and the local port\<close>













section \<open>Example data\<close>

text \<open>
  A cluster in the style of the repository's tests (one namespace with services,
  workloads and labelled pods) and worlds that hold one descriptor.
\<close>

definition exampleCluster :: cluster where
  "exampleCluster =
     \<lparr>services =
        [((''test-namespace'', ''test-service''), \<lparr>Spec_Selector = [(''app'', ''test-app'')]\<rparr>),
         ((''test-namespace'', ''idle-service''), \<lparr>Spec_Selector = [(''app'', ''nonexistent-app'')]\<rparr>),
         ((''test-namespace'', ''bare-service''), \<lparr>Spec_Selector = []\<rparr>)],
      deployments =
        [((''test-namespace'', ''test-deployment''),
          \<lparr>Selector = Some \<lparr>MatchLabels = [(''app'', ''test-app'')], MatchExpressions = []\<rparr>\<rparr>)],
      statefulsets = [],
      daemonsets = [],
      replicasets =
        [((''test-namespace'', ''idle-replicaset''),
          \<lparr>Selector = Some \<lparr>MatchLabels = [(''app'', ''nonexistent-app'')], MatchExpressions = []\<rparr>\<rparr>)],
      pods =
        [\<lparr>ObjectMeta_Name = ''other-pod'', ObjectMeta_Namespace = ''other-namespace'',
          ObjectMeta_Labels = [(''app'', ''test-app'')]\<rparr>,
         \<lparr>ObjectMeta_Name = ''db-0'', ObjectMeta_Namespace = ''test-namespace'',
          ObjectMeta_Labels = [(''app'', ''db'')]\<rparr>,
         \<lparr>ObjectMeta_Name = ''test-pod-1'', ObjectMeta_Namespace = ''test-namespace'',
          ObjectMeta_Labels = [(''app'', ''test-app''), (''tier'', ''web'')]\<rparr>,
         \<lparr>ObjectMeta_Name = ''test-pod-2'', ObjectMeta_Namespace = ''test-namespace'',
          ObjectMeta_Labels = [(''app'', ''test-app'')]\<rparr>]\<rparr>"

definition worldWith :: "ForwardTarget \<Rightarrow> internalSelector world" where
  "worldWith r = \<lparr>heap = [r], events = []\<rparr>"

definition podTarget :: ForwardTarget where
  "podTarget = \<lparr>Name = ''my-pod'', Namespace = ''default'', Kind = resourceTypePod, Port = 8080\<rparr>"

definition deploymentTarget :: ForwardTarget where
  "deploymentTarget = \<lparr>Name = ''test-deployment'', Namespace = ''test-namespace'',
                        Kind = resourceTypeDeployment, Port = 8080\<rparr>"

definition idleTarget :: ForwardTarget where
  "idleTarget = \<lparr>Name = ''idle-service'', Namespace = ''test-namespace'',
                  Kind = resourceTypeSvc, Port = 8080\<rparr>"

definition bareTarget :: ForwardTarget where
  "bareTarget = \<lparr>Name = ''bare-service'', Namespace = ''test-namespace'',
                  Kind = resourceTypeSvc, Port = 8080\<rparr>"

definition serviceTarget :: ForwardTarget where
  "serviceTarget = \<lparr>Name = ''test-service'', Namespace = ''test-namespace'',
                     Kind = resourceTypeSvc, Port = 8080\<rparr>"

text \<open>An environment in which no call into \<open>client-go\<close> fails.\<close>

definition envOK :: env where
  "envOK = \<lparr>ClientConfig_err = None, NewForConfig_err = None, RoundTripperFor_err = None,
            RESTClientFor_err = None, portforward_New_err = None, ForwardPorts_err = None\<rparr>"

text \<open>
  What \<open>url.Parse\<close> returns on the URLs of the examples: scheme \<open>http\<close>, the host with
  its port, and the path; no user, query or fragment, and nothing that needs escaping.
\<close>

definition httpURL :: "string \<Rightarrow> string \<Rightarrow> URL" where
  "httpURL h p =
     \<lparr>Scheme = ''http'', Opaque = [], User = None, Host = h, Path = p, RawPath = [],
      OmitHost = False, ForceQuery = False, RawQuery = [], Fragment = [], RawFragment = []\<rparr>"

definition exampleParse :: "string \<Rightarrow> string + URL" where
  "exampleParse =
     url_Parse_table
       [(''http://svcname.ns.svc:9090'', httpURL ''svcname.ns.svc:9090'' []),
        (''http://svcname.ns.svc.cluster.local:9090'',
           httpURL ''svcname.ns.svc.cluster.local:9090'' []),
        (''http://a.b.job:80'', httpURL ''a.b.job:80'' []),
        (''http://a.b.job:99999999999999999999'', httpURL ''a.b.job:99999999999999999999'' []),
        (''http://a.b.svc:70000/'', httpURL ''a.b.svc:70000'' ''/''),
        (''http://a.b.svc:0/'', httpURL ''a.b.svc:0'' ''/''),
        (''http://mysvc.mynamespace.svc:8080/api/resource'',
           httpURL ''mysvc.mynamespace.svc:8080'' ''/api/resource''),
        (''http://test-deployment.test-namespace.deploy:8080/api'',
           httpURL ''test-deployment.test-namespace.deploy:8080'' ''/api'')]"

section \<open>Properties of the address parser\<close>

lemma strings_Split_nonempty: "strings_Split s sep \<noteq> []"
  by (induction s) (auto split: list.splits)

lemma hd_strings_Split: "hd (strings_Split s sep) = takeWhile (\<lambda>c. c \<noteq> sep) s"
  by (induction s) (auto simp: strings_Split_nonempty split: list.splits)

lemma strings_Split_append:
  "strings_Split (a @ sep # b) sep = strings_Split a sep @ strings_Split b sep"
  by (induction a) (auto simp: strings_Split_nonempty split: list.splits)

lemma host_of_Host:
  assumes "CHR '':'' \<notin> set h" and "p = [] \<or> hd p = CHR '':''"
  shows "hd (strings_Split (h @ p) CHR '':'') = h"
proof -
  have "takeWhile (\<lambda>c. c \<noteq> CHR '':'') (h @ p) = h @ takeWhile (\<lambda>c. c \<noteq> CHR '':'') p"
    using assms(1) by (intro takeWhile_append2) auto
  moreover have "takeWhile (\<lambda>c. c \<noteq> CHR '':'') p = []"
    using assms(2) by (cases p) auto
  ultimately show ?thesis by (simp add: hd_strings_Split)
qed

lemma port_of_Host:
  assumes "CHR '':'' \<notin> set h" and "p = [] \<or> hd p = CHR '':''"
  shows "(p \<noteq> [] \<longrightarrow> rev (takeWhile (\<lambda>c. c \<noteq> CHR '':'') (rev (h @ p))) =
           rev (takeWhile (\<lambda>c. c \<noteq> CHR '':'') (rev p)))
         \<and> (CHR '':'' \<in> set (h @ p)) = (p \<noteq> [])"
proof (cases p)
  case Nil
  then show ?thesis using assms(1) by simp
next
  case (Cons c q)
  then have c: "c = CHR '':''" using assms(2) by simp
  have "CHR '':'' \<in> set (rev p)" using Cons c by simp
  then have "takeWhile (\<lambda>c. c \<noteq> CHR '':'') (rev p @ rev h) =
             takeWhile (\<lambda>c. c \<noteq> CHR '':'') (rev p)"
    by (intro takeWhile_append1) auto
  then show ?thesis using Cons c by simp
qed

lemma url_Port_of_Host:
  assumes "CHR '':'' \<notin> set h" and "p = [] \<or> hd p = CHR '':''" and "Host u = h @ p"
  shows "url_Port u =
           (let port = rev (takeWhile (\<lambda>c. c \<noteq> CHR '':'') (rev p))
            in if p \<noteq> [] \<and> list_all isDigit port then port else [])"
proof (cases "p = []")
  case True
  then show ?thesis using assms(1,3) by (simp add: url_Port_def)
next
  case False
  with port_of_Host [OF assms(1,2)]
  have "rev (takeWhile (\<lambda>c. c \<noteq> CHR '':'') (rev (Host u))) =
          rev (takeWhile (\<lambda>c. c \<noteq> CHR '':'') (rev p))"
    and "CHR '':'' \<in> set (Host u)"
    using assms(3) by simp_all
  then show ?thesis using False by (simp add: url_Port_def Let_def)
qed

lemma isDigit_not_sign: "isDigit c \<Longrightarrow> c \<noteq> CHR ''-'' \<and> c \<noteq> CHR ''+''"
  by (auto simp: isDigit_def)

lemma strconv_Atoi_digits:
  assumes "s \<noteq> []" and "list_all isDigit s"
  shows "strconv_Atoi s =
           (if 2 ^ 63 - 1 < int (decimalVal s) then Inl ErrRange else Inr (int (decimalVal s)))"
proof -
  have "isDigit (hd s)" using assms by (cases s) auto
  then have "hd s \<noteq> CHR ''-''" "hd s \<noteq> CHR ''+''"
    using isDigit_not_sign by blast+
  moreover have "\<not> int (decimalVal s) < - (2 ^ 63)"
    by (smt (verit) of_nat_0_le_iff zero_less_power)
  ultimately show ?thesis
    using assms by (simp add: strconv_Atoi_def isDecimal_def Let_def)
qed

lemma url_Port_digits: "url_Port u \<noteq> [] \<Longrightarrow> list_all isDigit (url_Port u)"
  by (auto simp: url_Port_def Let_def split: if_splits)

text \<open>
  The port conversion of the parser, with \<open>strconv.Atoi\<close> resolved: \<open>Port()\<close> returns
  digits only, so the conversion fails only when the value does not fit \<open>int\<close>.
\<close>

lemma port_conversion:
  "(if url_Port u = [] then Inr (if Scheme u = ''https'' then 443 else 80)
    else strconv_Atoi (url_Port u)) =
   (if url_Port u = [] then Inr (if Scheme u = ''https'' then 443 else 80)
    else if 2 ^ 63 - 1 < int (decimalVal (url_Port u)) then Inl ErrRange
    else Inr (int (decimalVal (url_Port u))))"
  using strconv_Atoi_digits [OF _ url_Port_digits, of u] by simp

lemma decimalVal_Nil: "decimalVal [] = 0"
  by (simp add: decimalVal_def)

lemmas parse_eval_defs =
  parseKubernetesServiceURL_def exampleParse_def url_Parse_table_def httpURL_def url_Port_def
  isDigit_def isDecimal_def strconv_Atoi_def decimalVal_def digitVal_def
  resourceNameRegex_MatchString_def isLowerAlnum_def NumError_Error_def

lemma parse_svcname:
  "parseKubernetesServiceURL exampleParse ''http://svcname.ns.svc:9090'' =
     Inr \<lparr>namespace = ''ns'', name = ''svcname'', kind = resourceTypeSvc, port = 9090\<rparr>"
  by (simp add: parse_eval_defs)

lemma parse_deployment:
  "parseKubernetesServiceURL exampleParse
       ''http://test-deployment.test-namespace.deploy:8080/api'' =
     Inr \<lparr>namespace = ''test-namespace'', name = ''test-deployment'',
          kind = resourceTypeDeployment, port = 8080\<rparr>"
  by (simp add: parse_eval_defs)

text \<open>
  The historical parser returns a descriptor for a third label that is neither \<open>svc\<close> nor
  \<open>pod\<close>, with the empty kind; the current parser rejects the same URL (see C5).
\<close>

lemma parse_historical_job:
  "parseKubernetesServiceURL_historical exampleParse ''http://a.b.job:80'' =
     Inr \<lparr>namespace = ''b'', name = ''a'', kind = [], port = 80\<rparr>"
  by (simp add: parseKubernetesServiceURL_historical_def exampleParse_def url_Parse_table_def
      httpURL_def url_Port_def isDigit_def isDecimal_def strconv_Atoi_def decimalVal_def
      digitVal_def resourceNameRegex_MatchString_def isLowerAlnum_def)

text \<open>
  Claim C5, as stated, fails: a third label outside the vocabulary does not always give
  the unsupported-resource-type error. The host \<open>a.b.job:99999999999999999999\<close> has the
  three labels \<open>a\<close>, \<open>b\<close>, \<open>job\<close>; its port is converted before the third label is
  looked at, the conversion overflows \<open>int\<close>, and the parser returns the invalid-port
  error.
\<close>

theorem C5_unsupported_kind_counterexample:
  "strings_Split (hd (strings_Split ''a.b.job:99999999999999999999'' CHR '':'')) CHR ''.'' =
     [''a'', ''b'', ''job'']
   \<and> exampleParse ''http://a.b.job:99999999999999999999'' =
       Inr (httpURL ''a.b.job:99999999999999999999'' [])
   \<and> parseKubernetesServiceURL exampleParse ''http://a.b.job:99999999999999999999'' =
       Inl (''invalid port in URL: strconv.Atoi: parsing '' @ [CHR 0x22] @
            ''99999999999999999999'' @ [CHR 0x22] @ '': value out of range'')
   \<and> parseKubernetesServiceURL exampleParse ''http://a.b.job:99999999999999999999'' \<noteq>
       Inl (unsupportedResourceType ''job'')"
  by (simp add: parse_eval_defs unsupportedResourceType_def)

text \<open>
  Claim C5, amended. For a URL that \<open>url.Parse\<close> accepts and whose host has at least
  three labels: a descriptor is returned only for a third label of the vocabulary, and
  its kind is the one the table gives for that exact token (\<open>svc\<close> services, \<open>pod\<close>
  pods, \<open>deploy\<close>/\<open>deployment\<close> deployments, \<open>sts\<close>/\<open>statefulset\<close> statefulsets,
  \<open>ds\<close>/\<open>daemonset\<close> daemonsets, \<open>rs\<close>/\<open>replicaset\<close> replicasets). For any other
  third label the parser returns an error and no descriptor: the
  unsupported-resource-type error naming the token and the vocabulary, unless the
  explicit port of the URL does not fit \<open>int\<close>, in which case the invalid-port error
  comes first.
\<close>

theorem C5_kind_token:
  assumes raw: "url_Parse rawURL = Inr u"
    and parts: "parts = strings_Split (hd (strings_Split (Host u) CHR '':'')) CHR ''.''"
    and len: "3 \<le> length parts"
  shows "(\<forall>t. parseKubernetesServiceURL url_Parse rawURL = Inr t \<longrightarrow>
            (parts ! 2 = ''svc'' \<and> kind t = resourceTypeSvc) \<or>
            (parts ! 2 = ''pod'' \<and> kind t = resourceTypePod) \<or>
            (parts ! 2 \<in> {''deploy'', ''deployment''} \<and> kind t = resourceTypeDeployment) \<or>
            (parts ! 2 \<in> {''sts'', ''statefulset''} \<and> kind t = resourceTypeStatefulSet) \<or>
            (parts ! 2 \<in> {''ds'', ''daemonset''} \<and> kind t = resourceTypeDaemonSet) \<or>
            (parts ! 2 \<in> {''rs'', ''replicaset''} \<and> kind t = resourceTypeReplicaSet))
       \<and> (parts ! 2 \<notin> {''svc'', ''pod'', ''deploy'', ''deployment'', ''sts'', ''statefulset'',
                         ''ds'', ''daemonset'', ''rs'', ''replicaset''} \<longrightarrow>
            parseKubernetesServiceURL url_Parse rawURL =
              (if 2 ^ 63 - 1 < int (decimalVal (url_Port u))
               then Inl (''invalid port in URL: '' @ NumError_Error (url_Port u) ErrRange)
               else Inl (unsupportedResourceType (parts ! 2))))"
proof -
  have len': "\<not> length (strings_Split (hd (strings_Split (Host u) CHR '':'')) CHR ''.'') < 3"
    using len parts by simp
  show ?thesis
    unfolding parseKubernetesServiceURL_def raw sum.case Let_def port_conversion parts [symmetric]
    using len' unfolding parts [symmetric]
    by (auto simp: decimalVal_Nil split: if_splits sum.splits)
qed

theorem C5_kind_token_witness:
  "exampleParse ''http://a.b.job:80'' = Inr (httpURL ''a.b.job:80'' [])
   \<and> strings_Split (hd (strings_Split (Host (httpURL ''a.b.job:80'' [])) CHR '':'')) CHR ''.'' =
       [''a'', ''b'', ''job'']
   \<and> parseKubernetesServiceURL exampleParse ''http://a.b.job:80'' =
       Inl (''unsupported resource type: job (supported: svc, pod, deploy, deployment, sts, statefulset, ds, daemonset, rs, replicaset)'')"
proof -
  have h1: "exampleParse ''http://a.b.job:80'' = Inr (httpURL ''a.b.job:80'' [])"
    by (simp add: exampleParse_def url_Parse_table_def)
  have h2: "[''a'', ''b'', ''job''] =
              strings_Split (hd (strings_Split (Host (httpURL ''a.b.job:80'' [])) CHR '':'')) CHR ''.''"
    by (simp add: httpURL_def)
  have h3: "3 \<le> length [''a'', ''b'', ''job'']" by simp
  have p: "url_Port (httpURL ''a.b.job:80'' []) = ''80''"
    by (simp add: url_Port_def httpURL_def isDigit_def)
  have d: "decimalVal ''80'' = 80"
    by (simp add: decimalVal_def digitVal_def)
  have "parseKubernetesServiceURL exampleParse ''http://a.b.job:80'' =
       Inl (''unsupported resource type: job (supported: svc, pod, deploy, deployment, sts, statefulset, ds, daemonset, rs, replicaset)'')"
    using C5_kind_token [of exampleParse "''http://a.b.job:80''", OF h1 h2 h3]
    by (simp add: p d unsupportedResourceType_def)
  then show ?thesis using h1 h2 by simp
qed

text \<open>
  Claim C6, as stated, fails: the parser accepts a URL whose explicit port is outside
  1 to 65535 and returns that port. Ports 70000 and 0 are returned as they are.
\<close>

theorem C6_port_range_counterexample:
  "parseKubernetesServiceURL exampleParse ''http://a.b.svc:70000/'' =
     Inr \<lparr>namespace = ''b'', name = ''a'', kind = resourceTypeSvc, port = 70000\<rparr>
   \<and> parseKubernetesServiceURL exampleParse ''http://a.b.svc:0/'' =
     Inr \<lparr>namespace = ''b'', name = ''a'', kind = resourceTypeSvc, port = 0\<rparr>
   \<and> \<not> (1 \<le> (70000::int) \<and> (70000::int) \<le> 65535) \<and> \<not> (1 \<le> (0::int) \<and> (0::int) \<le> 65535)"
  by (simp add: parse_eval_defs)

text \<open>
  Claim C6, amended. When the parser returns a descriptor, its port is 443 or 80 by
  scheme when the URL has no explicit port, and otherwise the decimal value of the
  explicit port's digits; in both cases it is an integer from 0 to \<open>2^63 - 1\<close>. No check
  against 1 to 65535 is made.
\<close>

theorem C6_port_value:
  assumes "parseKubernetesServiceURL url_Parse rawURL = Inr t"
  shows "\<exists>u. url_Parse rawURL = Inr u
           \<and> port t = (if url_Port u = [] then (if Scheme u = ''https'' then 443 else 80)
                       else int (decimalVal (url_Port u)))
           \<and> 0 \<le> port t \<and> port t \<le> 2 ^ 63 - 1"
proof (cases "url_Parse rawURL")
  case (Inl err)
  then show ?thesis using assms by (simp add: parseKubernetesServiceURL_def)
next
  case (Inr u)
  have "port t = (if url_Port u = [] then (if Scheme u = ''https'' then 443 else 80)
                       else int (decimalVal (url_Port u)))
        \<and> 0 \<le> port t \<and> port t \<le> 2 ^ 63 - 1"
    using assms unfolding parseKubernetesServiceURL_def Inr sum.case Let_def port_conversion
    by (auto split: if_splits sum.splits)
  then show ?thesis using Inr by simp
qed

theorem C6_port_value_witness:
  "parseKubernetesServiceURL exampleParse ''http://a.b.svc:70000/'' =
     Inr \<lparr>namespace = ''b'', name = ''a'', kind = resourceTypeSvc, port = 70000\<rparr>
   \<and> port \<lparr>namespace = ''b'', name = ''a'', kind = resourceTypeSvc, port = 70000\<rparr> =
       int (decimalVal ''70000'')
   \<and> 0 \<le> port \<lparr>namespace = ''b'', name = ''a'', kind = resourceTypeSvc, port = 70000\<rparr>
   \<and> port \<lparr>namespace = ''b'', name = ''a'', kind = resourceTypeSvc, port = 70000\<rparr> \<le> 2 ^ 63 - 1"
proof -
  have h: "parseKubernetesServiceURL exampleParse ''http://a.b.svc:70000/'' =
     Inr \<lparr>namespace = ''b'', name = ''a'', kind = resourceTypeSvc, port = 70000\<rparr>"
    by (simp add: parse_eval_defs)
  have u: "exampleParse ''http://a.b.svc:70000/'' = Inr (httpURL ''a.b.svc:70000'' ''/'')"
    by (simp add: exampleParse_def url_Parse_table_def)
  have p: "url_Port (httpURL ''a.b.svc:70000'' ''/'') = ''70000''"
    by (simp add: url_Port_def httpURL_def isDigit_def)
  show ?thesis
    using C6_port_value [of exampleParse "''http://a.b.svc:70000/''", OF h] h
    by (simp add: u p)
qed

text \<open>
  Claim C9. Take a URL whose host, before the port, has at least three labels, and the
  same URL with further labels appended to the host (same scheme, same port part). The
  parser returns the same result for both: the same descriptor (name, namespace, kind,
  port) when it accepts, the same error when it rejects. In particular this holds when
  the third label is a supported kind token.
\<close>

theorem C9_suffix_labels_ignored:
  assumes raw: "url_Parse rawURL = Inr u"
    and raw': "url_Parse rawURL' = Inr u'"
    and scheme: "Scheme u' = Scheme u"
    and host: "Host u = h @ p"
    and host': "Host u' = h @ ''.'' @ suffix @ p"
    and h: "CHR '':'' \<notin> set h"
    and suffix: "CHR '':'' \<notin> set suffix"
    and p: "p = [] \<or> hd p = CHR '':''"
    and labels: "3 \<le> length (strings_Split h CHR ''.'')"
  shows "parseKubernetesServiceURL url_Parse rawURL' = parseKubernetesServiceURL url_Parse rawURL"
proof -
  let ?parts = "strings_Split h CHR ''.''"
  let ?more = "strings_Split suffix CHR ''.''"
  have hs: "CHR '':'' \<notin> set (h @ ''.'' @ suffix)"
    using h suffix by simp
  have host1: "hd (strings_Split (Host u) CHR '':'') = h"
    using host_of_Host [OF h p] host by simp
  have host2: "hd (strings_Split (Host u') CHR '':'') = h @ ''.'' @ suffix"
    using host_of_Host [OF hs p] host' by simp
  have parts2: "strings_Split (h @ ''.'' @ suffix) CHR ''.'' = ?parts @ ?more"
    using strings_Split_append [of h "CHR ''.''" suffix] by simp
  have port: "url_Port u' = url_Port u"
    using url_Port_of_Host [OF h p host] url_Port_of_Host [OF hs p, of u'] host' by simp
  have nth: "(?parts @ ?more) ! 0 = ?parts ! 0" "(?parts @ ?more) ! 1 = ?parts ! 1"
      "(?parts @ ?more) ! 2 = ?parts ! 2"
  proof -
    have "0 < length ?parts" "1 < length ?parts" "2 < length ?parts"
      using labels by linarith+
    then show "(?parts @ ?more) ! 0 = ?parts ! 0" "(?parts @ ?more) ! 1 = ?parts ! 1"
      "(?parts @ ?more) ! 2 = ?parts ! 2"
      by (simp_all only: nth_append if_True)
  qed
  have len: "\<not> length ?parts < 3" "\<not> length (?parts @ ?more) < 3"
    using labels by simp_all
  show ?thesis
    unfolding parseKubernetesServiceURL_def raw raw' sum.case Let_def host1 host2 parts2 port
      scheme nth
    using len by (simp only: if_False)
qed

theorem C9_suffix_labels_ignored_witness:
  "parseKubernetesServiceURL exampleParse ''http://svcname.ns.svc.cluster.local:9090'' =
     parseKubernetesServiceURL exampleParse ''http://svcname.ns.svc:9090''
   \<and> parseKubernetesServiceURL exampleParse ''http://svcname.ns.svc.cluster.local:9090'' =
       Inr \<lparr>namespace = ''ns'', name = ''svcname'', kind = resourceTypeSvc, port = 9090\<rparr>"
proof -
  have h1: "exampleParse ''http://svcname.ns.svc:9090'' = Inr (httpURL ''svcname.ns.svc:9090'' [])"
    by (simp add: exampleParse_def url_Parse_table_def)
  have h2: "exampleParse ''http://svcname.ns.svc.cluster.local:9090'' =
              Inr (httpURL ''svcname.ns.svc.cluster.local:9090'' [])"
    by (simp add: exampleParse_def url_Parse_table_def)
  have h3: "Scheme (httpURL ''svcname.ns.svc.cluster.local:9090'' []) =
              Scheme (httpURL ''svcname.ns.svc:9090'' [])"
    by (simp add: httpURL_def)
  have h4: "Host (httpURL ''svcname.ns.svc:9090'' []) = ''svcname.ns.svc'' @ '':9090''"
    by (simp add: httpURL_def)
  have h5: "Host (httpURL ''svcname.ns.svc.cluster.local:9090'' []) =
              ''svcname.ns.svc'' @ ''.'' @ ''cluster.local'' @ '':9090''"
    by (simp add: httpURL_def)
  have h6: "CHR '':'' \<notin> set ''svcname.ns.svc''" by simp
  have h7: "CHR '':'' \<notin> set ''cluster.local''" by simp
  have h8: "'':9090'' = [] \<or> hd '':9090'' = CHR '':''" by simp
  have h9: "3 \<le> length (strings_Split ''svcname.ns.svc'' CHR ''.'')" by simp
  have "parseKubernetesServiceURL exampleParse ''http://svcname.ns.svc.cluster.local:9090'' =
          parseKubernetesServiceURL exampleParse ''http://svcname.ns.svc:9090''"
    by (rule C9_suffix_labels_ignored
          [of exampleParse "''http://svcname.ns.svc:9090''" _
              "''http://svcname.ns.svc.cluster.local:9090''", OF h1 h2 h3 h4 h5 h6 h7 h8 h9])
  then show ?thesis
    using parse_svcname by simp
qed

section \<open>Properties of the local URL\<close>

lemma Sprintf_d_54321: "Sprintf_d 54321 = ''54321''"
  by (simp add: Sprintf_d_def natDigits.simps)

lemma Sprintf_d_8080: "Sprintf_d 8080 = ''8080''"
  by (simp add: Sprintf_d_def natDigits.simps)

lemma parse_historical_mysvc:
  "parseKubernetesServiceURL_historical exampleParse
       ''http://mysvc.mynamespace.svc:8080/api/resource'' =
     Inr \<lparr>namespace = ''mynamespace'', name = ''mysvc'', kind = resourceTypeSvc, port = 8080\<rparr>"
  by (simp add: parseKubernetesServiceURL_historical_def exampleParse_def url_Parse_table_def
      httpURL_def url_Port_def isDigit_def isDecimal_def strconv_Atoi_def decimalVal_def
      digitVal_def resourceNameRegex_MatchString_def isLowerAlnum_def)

text \<open>
  Claim C2 at the service URL \<open>http://mysvc.mynamespace.svc:8080/api/resource\<close> with local
  port 54321, in the flag-based \<open>main\<close>: the replacement of the \<open>.pod\<close> host starts again
  from the original URL, so the replacement of the \<open>.svc\<close> host is lost, and only the
  port is rewritten. The URL handed to the request layer keeps the cluster host; its
  host is not \<open>localhost\<close>.
\<close>

theorem C2_main_localURL_service:
  "main_localURL ''http://mysvc.mynamespace.svc:8080/api/resource''
         \<lparr>namespace = ''mynamespace'', name = ''mysvc'', kind = resourceTypeSvc, port = 8080\<rparr>
         54321 =
       ''http://mysvc.mynamespace.svc:54321/api/resource''"
  by (simp add: main_localURL_def Sprintf_d_54321 Sprintf_d_8080)

text \<open>For a pod URL the same statements do give the local host and port.\<close>

lemma main_localURL_pod:
  "main_localURL ''http://my-pod.default.pod:8080/api''
         \<lparr>namespace = ''default'', name = ''my-pod'', kind = resourceTypePod, port = 8080\<rparr>
         54321 =
       ''http://localhost:54321/api''"
  by (simp add: main_localURL_def Sprintf_d_54321 Sprintf_d_8080)

text \<open>
  \<open>reconstructURL\<close> of the later variants renders a URL whose host is
  \<open>localhost:<localPort>\<close> and whose scheme, path, query and fragment are those of the
  parsed original, for services and pods alike.
\<close>

lemma reconstructURL_parsed:
  assumes "url_Parse originalURL = Inr parsedURL"
  shows "\<exists>newURL. reconstructURL url_Parse url_String originalURL localPort = url_String newURL
           \<and> Host newURL = ''localhost:'' @ Sprintf_d localPort
           \<and> Scheme newURL = Scheme parsedURL \<and> Path newURL = Path parsedURL
           \<and> RawQuery newURL = RawQuery parsedURL \<and> Fragment newURL = Fragment parsedURL"
proof -
  let ?newURL = "\<lparr>Scheme = Scheme parsedURL, Opaque = [], User = None,
                  Host = ''localhost:'' @ Sprintf_d localPort, Path = Path parsedURL,
                  RawPath = [], OmitHost = False, ForceQuery = False,
                  RawQuery = RawQuery parsedURL, Fragment = Fragment parsedURL,
                  RawFragment = []\<rparr>"
  have "reconstructURL url_Parse url_String originalURL localPort = url_String ?newURL"
    using assms by (simp add: reconstructURL_def)
  then show ?thesis
    by (intro exI [of _ ?newURL]) simp
qed

section \<open>Properties of the resolver\<close>

lemma emit_Nil: "emit [] w = w"
  by (simp add: emit_def)

lemma heap_emit: "heap (emit evs w) = heap w"
  by (simp add: emit_def)

lemma events_emit: "events (emit evs w) = events w @ evs"
  by (simp add: emit_def)

lemma selectorSwitch_pod:
  "Kind r = resourceTypePod \<Longrightarrow> selectorSwitch lib client r = ([], Inr None)"
  by (simp add: selectorSwitch_def resourceTypePod_def resourceTypeSvc_def
      resourceTypeDeployment_def resourceTypeStatefulSet_def resourceTypeDaemonSet_def
      resourceTypeReplicaSet_def)

lemma Matches_Everything: "Matches (SelectorFromSet []) ls"
  by (simp add: Matches_def SelectorFromSet_def)

lemma ListPods_Everything:
  "ListPods (clusterClient cl) ns (SelectorFromSet []) = Inr \<lparr>Items = podsInNamespace cl ns\<rparr>"
  by (simp add: clusterClient_def Matches_Everything)

text \<open>
  The switch dispatches each of the five non-Pod kinds to the client call of that kind:
  when the client returns the object, and for a workload the library converts its
  selector, the switch makes that one call and leaves the selector.
\<close>

lemma selectorSwitch_fetched:
  assumes
    "(Kind r = resourceTypeSvc
        \<and> GetService client (Namespace r) (Name r) = Inr svc
        \<and> labels_Set_AsSelector lib (Spec_Selector svc) = selector
        \<and> call = GetServiceCall (Namespace r) (Name r))
     \<or> (Kind r = resourceTypeDeployment
        \<and> GetDeployment client (Namespace r) (Name r) = Inr workload
        \<and> metav1_LabelSelectorAsSelector lib (Selector workload) = Inr selector
        \<and> call = GetDeploymentCall (Namespace r) (Name r))
     \<or> (Kind r = resourceTypeStatefulSet
        \<and> GetStatefulSet client (Namespace r) (Name r) = Inr workload
        \<and> metav1_LabelSelectorAsSelector lib (Selector workload) = Inr selector
        \<and> call = GetStatefulSetCall (Namespace r) (Name r))
     \<or> (Kind r = resourceTypeDaemonSet
        \<and> GetDaemonSet client (Namespace r) (Name r) = Inr workload
        \<and> metav1_LabelSelectorAsSelector lib (Selector workload) = Inr selector
        \<and> call = GetDaemonSetCall (Namespace r) (Name r))
     \<or> (Kind r = resourceTypeReplicaSet
        \<and> GetReplicaSet client (Namespace r) (Name r) = Inr workload
        \<and> metav1_LabelSelectorAsSelector lib (Selector workload) = Inr selector
        \<and> call = GetReplicaSetCall (Namespace r) (Name r))"
  shows "selectorSwitch lib client r = ([call], Inr (Some selector))"
  using assms
proof (elim disjE conjE)
  assume "Kind r = resourceTypeSvc" "GetService client (Namespace r) (Name r) = Inr svc"
    "labels_Set_AsSelector lib (Spec_Selector svc) = selector"
    "call = GetServiceCall (Namespace r) (Name r)"
  then show ?thesis
    by (simp add: selectorSwitch_def)
next
  assume "Kind r = resourceTypeDeployment"
    "GetDeployment client (Namespace r) (Name r) = Inr workload"
    "metav1_LabelSelectorAsSelector lib (Selector workload) = Inr selector"
    "call = GetDeploymentCall (Namespace r) (Name r)"
  then show ?thesis
    by (simp add: selectorSwitch_def workloadSelector_def resourceTypeSvc_def
        resourceTypeDeployment_def)
next
  assume "Kind r = resourceTypeStatefulSet"
    "GetStatefulSet client (Namespace r) (Name r) = Inr workload"
    "metav1_LabelSelectorAsSelector lib (Selector workload) = Inr selector"
    "call = GetStatefulSetCall (Namespace r) (Name r)"
  then show ?thesis
    by (simp add: selectorSwitch_def workloadSelector_def resourceTypeSvc_def
        resourceTypeDeployment_def resourceTypeStatefulSet_def)
next
  assume "Kind r = resourceTypeDaemonSet"
    "GetDaemonSet client (Namespace r) (Name r) = Inr workload"
    "metav1_LabelSelectorAsSelector lib (Selector workload) = Inr selector"
    "call = GetDaemonSetCall (Namespace r) (Name r)"
  then show ?thesis
    by (simp add: selectorSwitch_def workloadSelector_def resourceTypeSvc_def
        resourceTypeDeployment_def resourceTypeStatefulSet_def resourceTypeDaemonSet_def)
next
  assume "Kind r = resourceTypeReplicaSet"
    "GetReplicaSet client (Namespace r) (Name r) = Inr workload"
    "metav1_LabelSelectorAsSelector lib (Selector workload) = Inr selector"
    "call = GetReplicaSetCall (Namespace r) (Name r)"
  then show ?thesis
    by (simp add: selectorSwitch_def workloadSelector_def resourceTypeSvc_def
        resourceTypeDeployment_def resourceTypeStatefulSet_def resourceTypeDaemonSet_def
        resourceTypeReplicaSet_def)
qed

text \<open>
  Claim C7. For a descriptor whose kind is Pod, the resolver returns the very pointer it
  was given with no error, and the world is unchanged: the heap is the same and no event
  was added, so no client call (no selector fetch, no pod listing) was made.
\<close>

theorem C7_resolve_pod_identity:
  assumes "res < length (heap w)" and "Kind (heap w ! res) = resourceTypePod"
  shows "findTargetForServiceWithClient lib client w res = Some (w, res, None)"
  using assms
  by (simp add: findTargetForServiceWithClient_def selectorSwitch_pod emit_Nil)

theorem C7_resolve_pod_identity_witness:
  "\<forall>lib. findTargetForServiceWithClient lib (clusterClient exampleCluster)
            (worldWith podTarget) 0
          = Some (worldWith podTarget, 0, None)"
proof
  fix lib :: "internalSelector apimachinery"
  have h1: "0 < length (heap (worldWith podTarget))"
    by (simp add: worldWith_def)
  have h2: "Kind (heap (worldWith podTarget) ! 0) = resourceTypePod"
    by (simp add: worldWith_def podTarget_def)
  show "findTargetForServiceWithClient lib (clusterClient exampleCluster)
            (worldWith podTarget) 0
          = Some (worldWith podTarget, 0, None)"
    by (rule C7_resolve_pod_identity [OF h1 h2])
qed

text \<open>
  Claim C4. Take a descriptor of one of the five non-Pod kinds whose selector fetch
  succeeds: the client returns the service, deployment, statefulset, daemonset or
  replicaset of that name and namespace, and for a workload the library converts its
  selector. When the client then lists a non-empty pod list for that selector, the
  resolver returns with no error a pointer to a fresh cell (different from the argument)
  that holds kind Pod, the name of the first pod of the list, and the namespace and port
  of the input; the cells that existed before, the input among them, are unchanged. It
  has made the one fetch and the one listing and printed the notice. The same holds
  from any other world that holds the same descriptor, with the same client: the pod
  chosen is the same.
\<close>

theorem C4_resolve_first_pod:
  assumes valid: "res < length (heap w)"
    and r: "r = heap w ! res"
    and fetch:
      "(Kind r = resourceTypeSvc
          \<and> GetService client (Namespace r) (Name r) = Inr svc
          \<and> labels_Set_AsSelector lib (Spec_Selector svc) = selector
          \<and> call = GetServiceCall (Namespace r) (Name r))
       \<or> (Kind r = resourceTypeDeployment
          \<and> GetDeployment client (Namespace r) (Name r) = Inr workload
          \<and> metav1_LabelSelectorAsSelector lib (Selector workload) = Inr selector
          \<and> call = GetDeploymentCall (Namespace r) (Name r))
       \<or> (Kind r = resourceTypeStatefulSet
          \<and> GetStatefulSet client (Namespace r) (Name r) = Inr workload
          \<and> metav1_LabelSelectorAsSelector lib (Selector workload) = Inr selector
          \<and> call = GetStatefulSetCall (Namespace r) (Name r))
       \<or> (Kind r = resourceTypeDaemonSet
          \<and> GetDaemonSet client (Namespace r) (Name r) = Inr workload
          \<and> metav1_LabelSelectorAsSelector lib (Selector workload) = Inr selector
          \<and> call = GetDaemonSetCall (Namespace r) (Name r))
       \<or> (Kind r = resourceTypeReplicaSet
          \<and> GetReplicaSet client (Namespace r) (Name r) = Inr workload
          \<and> metav1_LabelSelectorAsSelector lib (Selector workload) = Inr selector
          \<and> call = GetReplicaSetCall (Namespace r) (Name r))"
    and listed: "ListPods client (Namespace r) selector = Inr podList"
    and nonempty: "Items podList = pod # rest"
  shows "findTargetForServiceWithClient lib client w res =
           Some (w\<lparr>heap := heap w @
                     [\<lparr>Name = ObjectMeta_Name pod, Namespace = Namespace r,
                       Kind = resourceTypePod, Port = Port r\<rparr>],
                    events := events w @
                     [call,
                      ListPodsCall (Namespace r) selector,
                      Printf (''Found matching pod: '' @ ObjectMeta_Name pod @ '' for '' @
                              Kind r @ '': '' @ Name r @ [CHR 0x0A])]\<rparr>,
                 length (heap w), None)
         \<and> length (heap w) \<noteq> res
         \<and> (\<forall>w2. res < length (heap w2) \<and> heap w2 ! res = r \<longrightarrow>
              (\<exists>w2'. findTargetForServiceWithClient lib client w2 res =
                        Some (w2', length (heap w2), None)
                    \<and> heap w2' ! res = r
                    \<and> heap w2' ! length (heap w2) =
                        \<lparr>Name = ObjectMeta_Name pod, Namespace = Namespace r,
                         Kind = resourceTypePod, Port = Port r\<rparr>))"
proof -
  have sw: "selectorSwitch lib client r = ([call], Inr (Some selector))"
    by (rule selectorSwitch_fetched [OF fetch])
  have step: "\<And>v. res < length (heap v) \<Longrightarrow> heap v ! res = r \<Longrightarrow>
      findTargetForServiceWithClient lib client v res =
           Some (v\<lparr>heap := heap v @
                     [\<lparr>Name = ObjectMeta_Name pod, Namespace = Namespace r,
                       Kind = resourceTypePod, Port = Port r\<rparr>],
                    events := events v @
                     [call,
                      ListPodsCall (Namespace r) selector,
                      Printf (''Found matching pod: '' @ ObjectMeta_Name pod @ '' for '' @
                              Kind r @ '': '' @ Name r @ [CHR 0x0A])]\<rparr>,
                 length (heap v), None)"
    using sw listed nonempty
    by (simp add: findTargetForServiceWithClient_def emit_def Let_def)
  have one: "length (heap w) \<noteq> res" using valid by simp
  show ?thesis
  proof (intro conjI allI impI)
    show "findTargetForServiceWithClient lib client w res =
           Some (w\<lparr>heap := heap w @
                     [\<lparr>Name = ObjectMeta_Name pod, Namespace = Namespace r,
                       Kind = resourceTypePod, Port = Port r\<rparr>],
                    events := events w @
                     [call,
                      ListPodsCall (Namespace r) selector,
                      Printf (''Found matching pod: '' @ ObjectMeta_Name pod @ '' for '' @
                              Kind r @ '': '' @ Name r @ [CHR 0x0A])]\<rparr>,
                 length (heap w), None)"
      using step [OF valid] r by simp
    show "length (heap w) \<noteq> res" by (rule one)
  next
    fix w2 :: "'a world"
    assume h: "res < length (heap w2) \<and> heap w2 ! res = r"
    then show "\<exists>w2'. findTargetForServiceWithClient lib client w2 res =
                        Some (w2', length (heap w2), None)
                    \<and> heap w2' ! res = r
                    \<and> heap w2' ! length (heap w2) =
                        \<lparr>Name = ObjectMeta_Name pod, Namespace = Namespace r,
                         Kind = resourceTypePod, Port = Port r\<rparr>"
      using step [of w2] by (simp add: nth_append)
  qed
qed

theorem C4_resolve_first_pod_witness:
  "\<forall>conv. findTargetForServiceWithClient (labelsLib conv) (clusterClient exampleCluster)
              (worldWith serviceTarget) 0 =
     Some (\<lparr>heap = [serviceTarget,
                     \<lparr>Name = ''test-pod-1'', Namespace = ''test-namespace'',
                      Kind = resourceTypePod, Port = 8080\<rparr>],
            events = [GetServiceCall ''test-namespace'' ''test-service'',
                      ListPodsCall ''test-namespace'' [(''app'', ''test-app'')],
                      Printf (''Found matching pod: test-pod-1 for services: test-service'' @
                              [CHR 0x0A])]\<rparr>,
           1, None)"
proof
  fix conv :: "LabelSelector option \<Rightarrow> string + internalSelector"
  let ?w = "worldWith serviceTarget"
  let ?pod1 = "\<lparr>ObjectMeta_Name = ''test-pod-1'', ObjectMeta_Namespace = ''test-namespace'',
          ObjectMeta_Labels = [(''app'', ''test-app''), (''tier'', ''web'')]\<rparr>"
  let ?pod2 = "\<lparr>ObjectMeta_Name = ''test-pod-2'', ObjectMeta_Namespace = ''test-namespace'',
          ObjectMeta_Labels = [(''app'', ''test-app'')]\<rparr>"
  have h1: "0 < length (heap ?w)"
    by (simp add: worldWith_def)
  have h2: "serviceTarget = heap ?w ! 0"
    by (simp add: worldWith_def)
  have get: "GetService (clusterClient exampleCluster) (Namespace serviceTarget)
               (Name serviceTarget) = Inr \<lparr>Spec_Selector = [(''app'', ''test-app'')]\<rparr>"
    by (simp add: clusterClient_def getObject_def exampleCluster_def serviceTarget_def)
  have sel: "labels_Set_AsSelector (labelsLib conv)
               (Spec_Selector \<lparr>Spec_Selector = [(''app'', ''test-app'')]\<rparr>) =
             [(''app'', ''test-app'')]"
    by (simp add: labelsLib_def SelectorFromSet_def)
  have h3:
      "(Kind serviceTarget = resourceTypeSvc
          \<and> GetService (clusterClient exampleCluster) (Namespace serviceTarget)
               (Name serviceTarget) = Inr \<lparr>Spec_Selector = [(''app'', ''test-app'')]\<rparr>
          \<and> labels_Set_AsSelector (labelsLib conv)
               (Spec_Selector \<lparr>Spec_Selector = [(''app'', ''test-app'')]\<rparr>) =
             [(''app'', ''test-app'')]
          \<and> GetServiceCall ''test-namespace'' ''test-service'' =
             GetServiceCall (Namespace serviceTarget) (Name serviceTarget))
       \<or> (Kind serviceTarget = resourceTypeDeployment
          \<and> GetDeployment (clusterClient exampleCluster) (Namespace serviceTarget)
               (Name serviceTarget) = Inr \<lparr>Selector = None\<rparr>
          \<and> metav1_LabelSelectorAsSelector (labelsLib conv) (Selector \<lparr>Selector = None\<rparr>) =
             Inr [(''app'', ''test-app'')]
          \<and> GetServiceCall ''test-namespace'' ''test-service'' =
             GetDeploymentCall (Namespace serviceTarget) (Name serviceTarget))
       \<or> (Kind serviceTarget = resourceTypeStatefulSet
          \<and> GetStatefulSet (clusterClient exampleCluster) (Namespace serviceTarget)
               (Name serviceTarget) = Inr \<lparr>Selector = None\<rparr>
          \<and> metav1_LabelSelectorAsSelector (labelsLib conv) (Selector \<lparr>Selector = None\<rparr>) =
             Inr [(''app'', ''test-app'')]
          \<and> GetServiceCall ''test-namespace'' ''test-service'' =
             GetStatefulSetCall (Namespace serviceTarget) (Name serviceTarget))
       \<or> (Kind serviceTarget = resourceTypeDaemonSet
          \<and> GetDaemonSet (clusterClient exampleCluster) (Namespace serviceTarget)
               (Name serviceTarget) = Inr \<lparr>Selector = None\<rparr>
          \<and> metav1_LabelSelectorAsSelector (labelsLib conv) (Selector \<lparr>Selector = None\<rparr>) =
             Inr [(''app'', ''test-app'')]
          \<and> GetServiceCall ''test-namespace'' ''test-service'' =
             GetDaemonSetCall (Namespace serviceTarget) (Name serviceTarget))
       \<or> (Kind serviceTarget = resourceTypeReplicaSet
          \<and> GetReplicaSet (clusterClient exampleCluster) (Namespace serviceTarget)
               (Name serviceTarget) = Inr \<lparr>Selector = None\<rparr>
          \<and> metav1_LabelSelectorAsSelector (labelsLib conv) (Selector \<lparr>Selector = None\<rparr>) =
             Inr [(''app'', ''test-app'')]
          \<and> GetServiceCall ''test-namespace'' ''test-service'' =
             GetReplicaSetCall (Namespace serviceTarget) (Name serviceTarget))"
    using get sel by (simp add: serviceTarget_def)
  have h4: "ListPods (clusterClient exampleCluster) (Namespace serviceTarget)
              [(''app'', ''test-app'')] = Inr \<lparr>Items = [?pod1, ?pod2]\<rparr>"
    by (simp add: clusterClient_def podsInNamespace_def exampleCluster_def Matches_def
        serviceTarget_def)
  have h5: "Items \<lparr>Items = [?pod1, ?pod2]\<rparr> = ?pod1 # [?pod2]"
    by simp
  show "findTargetForServiceWithClient (labelsLib conv) (clusterClient exampleCluster)
              (worldWith serviceTarget) 0 =
     Some (\<lparr>heap = [serviceTarget,
                     \<lparr>Name = ''test-pod-1'', Namespace = ''test-namespace'',
                      Kind = resourceTypePod, Port = 8080\<rparr>],
            events = [GetServiceCall ''test-namespace'' ''test-service'',
                      ListPodsCall ''test-namespace'' [(''app'', ''test-app'')],
                      Printf (''Found matching pod: test-pod-1 for services: test-service'' @
                              [CHR 0x0A])]\<rparr>,
           1, None)"
    using C4_resolve_first_pod [OF h1 h2 h3 h4 h5]
    by (simp add: worldWith_def serviceTarget_def resourceTypeSvc_def)
qed

text \<open>
  Claim C8. Take a descriptor of one of the five non-Pod kinds whose selector fetch
  succeeds, as in C4. When the client then lists an empty pod list for that selector,
  the resolver returns the error
  \<open>no pods found for <kind> <name> in namespace <namespace>\<close>; the pointer returned with
  it is the argument, and no descriptor is added to the heap.
\<close>

theorem C8_resolve_no_pods:
  assumes valid: "res < length (heap w)"
    and r: "r = heap w ! res"
    and fetch:
      "(Kind r = resourceTypeSvc
          \<and> GetService client (Namespace r) (Name r) = Inr svc
          \<and> labels_Set_AsSelector lib (Spec_Selector svc) = selector
          \<and> call = GetServiceCall (Namespace r) (Name r))
       \<or> (Kind r = resourceTypeDeployment
          \<and> GetDeployment client (Namespace r) (Name r) = Inr workload
          \<and> metav1_LabelSelectorAsSelector lib (Selector workload) = Inr selector
          \<and> call = GetDeploymentCall (Namespace r) (Name r))
       \<or> (Kind r = resourceTypeStatefulSet
          \<and> GetStatefulSet client (Namespace r) (Name r) = Inr workload
          \<and> metav1_LabelSelectorAsSelector lib (Selector workload) = Inr selector
          \<and> call = GetStatefulSetCall (Namespace r) (Name r))
       \<or> (Kind r = resourceTypeDaemonSet
          \<and> GetDaemonSet client (Namespace r) (Name r) = Inr workload
          \<and> metav1_LabelSelectorAsSelector lib (Selector workload) = Inr selector
          \<and> call = GetDaemonSetCall (Namespace r) (Name r))
       \<or> (Kind r = resourceTypeReplicaSet
          \<and> GetReplicaSet client (Namespace r) (Name r) = Inr workload
          \<and> metav1_LabelSelectorAsSelector lib (Selector workload) = Inr selector
          \<and> call = GetReplicaSetCall (Namespace r) (Name r))"
    and listed: "ListPods client (Namespace r) selector = Inr podList"
    and none: "Items podList = []"
  shows "findTargetForServiceWithClient lib client w res =
           Some (w\<lparr>events := events w @ [call, ListPodsCall (Namespace r) selector]\<rparr>,
                 res,
                 Some (''no pods found for '' @ Kind r @ '' '' @ Name r @
                       '' in namespace '' @ Namespace r))"
proof -
  have sw: "selectorSwitch lib client (heap w ! res) = ([call], Inr (Some selector))"
    using selectorSwitch_fetched [OF fetch] r by simp
  show ?thesis
    using valid sw listed none r
    by (simp add: findTargetForServiceWithClient_def emit_def Let_def)
qed

theorem C8_resolve_no_pods_witness:
  "\<forall>conv. findTargetForServiceWithClient (labelsLib conv) (clusterClient exampleCluster)
              (worldWith idleTarget) 0 =
     Some (\<lparr>heap = [idleTarget],
            events = [GetServiceCall ''test-namespace'' ''idle-service'',
                      ListPodsCall ''test-namespace'' [(''app'', ''nonexistent-app'')]]\<rparr>,
           0,
           Some ''no pods found for services idle-service in namespace test-namespace'')"
proof
  fix conv :: "LabelSelector option \<Rightarrow> string + internalSelector"
  let ?w = "worldWith idleTarget"
  have h1: "0 < length (heap ?w)"
    by (simp add: worldWith_def)
  have h2: "idleTarget = heap ?w ! 0"
    by (simp add: worldWith_def)
  have get: "GetService (clusterClient exampleCluster) (Namespace idleTarget)
               (Name idleTarget) = Inr \<lparr>Spec_Selector = [(''app'', ''nonexistent-app'')]\<rparr>"
    by (simp add: clusterClient_def getObject_def exampleCluster_def idleTarget_def)
  have sel: "labels_Set_AsSelector (labelsLib conv)
               (Spec_Selector \<lparr>Spec_Selector = [(''app'', ''nonexistent-app'')]\<rparr>) =
             [(''app'', ''nonexistent-app'')]"
    by (simp add: labelsLib_def SelectorFromSet_def)
  have h3:
      "(Kind idleTarget = resourceTypeSvc
          \<and> GetService (clusterClient exampleCluster) (Namespace idleTarget)
               (Name idleTarget) = Inr \<lparr>Spec_Selector = [(''app'', ''nonexistent-app'')]\<rparr>
          \<and> labels_Set_AsSelector (labelsLib conv)
               (Spec_Selector \<lparr>Spec_Selector = [(''app'', ''nonexistent-app'')]\<rparr>) =
             [(''app'', ''nonexistent-app'')]
          \<and> GetServiceCall ''test-namespace'' ''idle-service'' =
             GetServiceCall (Namespace idleTarget) (Name idleTarget))
       \<or> (Kind idleTarget = resourceTypeDeployment
          \<and> GetDeployment (clusterClient exampleCluster) (Namespace idleTarget)
               (Name idleTarget) = Inr \<lparr>Selector = None\<rparr>
          \<and> metav1_LabelSelectorAsSelector (labelsLib conv) (Selector \<lparr>Selector = None\<rparr>) =
             Inr [(''app'', ''nonexistent-app'')]
          \<and> GetServiceCall ''test-namespace'' ''idle-service'' =
             GetDeploymentCall (Namespace idleTarget) (Name idleTarget))
       \<or> (Kind idleTarget = resourceTypeStatefulSet
          \<and> GetStatefulSet (clusterClient exampleCluster) (Namespace idleTarget)
               (Name idleTarget) = Inr \<lparr>Selector = None\<rparr>
          \<and> metav1_LabelSelectorAsSelector (labelsLib conv) (Selector \<lparr>Selector = None\<rparr>) =
             Inr [(''app'', ''nonexistent-app'')]
          \<and> GetServiceCall ''test-namespace'' ''idle-service'' =
             GetStatefulSetCall (Namespace idleTarget) (Name idleTarget))
       \<or> (Kind idleTarget = resourceTypeDaemonSet
          \<and> GetDaemonSet (clusterClient exampleCluster) (Namespace idleTarget)
               (Name idleTarget) = Inr \<lparr>Selector = None\<rparr>
          \<and> metav1_LabelSelectorAsSelector (labelsLib conv) (Selector \<lparr>Selector = None\<rparr>) =
             Inr [(''app'', ''nonexistent-app'')]
          \<and> GetServiceCall ''test-namespace'' ''idle-service'' =
             GetDaemonSetCall (Namespace idleTarget) (Name idleTarget))
       \<or> (Kind idleTarget = resourceTypeReplicaSet
          \<and> GetReplicaSet (clusterClient exampleCluster) (Namespace idleTarget)
               (Name idleTarget) = Inr \<lparr>Selector = None\<rparr>
          \<and> metav1_LabelSelectorAsSelector (labelsLib conv) (Selector \<lparr>Selector = None\<rparr>) =
             Inr [(''app'', ''nonexistent-app'')]
          \<and> GetServiceCall ''test-namespace'' ''idle-service'' =
             GetReplicaSetCall (Namespace idleTarget) (Name idleTarget))"
    using get sel by (simp add: idleTarget_def)
  have h4: "ListPods (clusterClient exampleCluster) (Namespace idleTarget)
              [(''app'', ''nonexistent-app'')] = Inr \<lparr>Items = []\<rparr>"
    by (simp add: clusterClient_def podsInNamespace_def exampleCluster_def Matches_def
        idleTarget_def)
  have h5: "Items \<lparr>Items = []\<rparr> = []"
    by simp
  show "findTargetForServiceWithClient (labelsLib conv) (clusterClient exampleCluster)
              (worldWith idleTarget) 0 =
     Some (\<lparr>heap = [idleTarget],
            events = [GetServiceCall ''test-namespace'' ''idle-service'',
                      ListPodsCall ''test-namespace'' [(''app'', ''nonexistent-app'')]]\<rparr>,
           0,
           Some ''no pods found for services idle-service in namespace test-namespace'')"
    using C8_resolve_no_pods [OF h1 h2 h3 h4 h5]
    by (simp add: worldWith_def idleTarget_def resourceTypeSvc_def)
qed

text \<open>
  Claim C10. For a Service descriptor whose service exists with an empty selector map, the
  resolver reports no error about the selector: it lists the pods with the selector that
  has no requirement, which every pod of the namespace matches, and returns the first pod
  of the namespace, or the no-pods error when the namespace has no pod.
\<close>

theorem C10_service_without_selector:
  assumes valid: "res < length (heap w)"
    and kind: "Kind (heap w ! res) = resourceTypeSvc"
    and exists: "map_of (services cl) (Namespace (heap w ! res), Name (heap w ! res)) = Some svc"
    and noselector: "Spec_Selector svc = []"
    and lib: "labels_Set_AsSelector lib = SelectorFromSet"
  shows "findTargetForServiceWithClient lib (clusterClient cl) w res =
           (let r = heap w ! res;
                w1 = emit [GetServiceCall (Namespace r) (Name r),
                           ListPodsCall (Namespace r) (SelectorFromSet [])] w
            in case podsInNamespace cl (Namespace r) of
                 [] \<Rightarrow>
                   Some (w1, res,
                         Some (''no pods found for '' @ Kind r @ '' '' @ Name r @
                               '' in namespace '' @ Namespace r))
               | pod # rest \<Rightarrow>
                   Some (emit [Printf (''Found matching pod: '' @ ObjectMeta_Name pod @
                                       '' for '' @ Kind r @ '': '' @ Name r @ [CHR 0x0A])] w1
                           \<lparr>heap := heap w @
                              [\<lparr>Name = ObjectMeta_Name pod, Namespace = Namespace r,
                                Kind = resourceTypePod, Port = Port r\<rparr>]\<rparr>,
                         length (heap w), None))"
proof -
  let ?r = "heap w ! res"
  have get: "GetService (clusterClient cl) (Namespace ?r) (Name ?r) = Inr svc"
    using exists by (simp add: clusterClient_def getObject_def)
  have sw: "selectorSwitch lib (clusterClient cl) ?r =
              ([GetServiceCall (Namespace ?r) (Name ?r)], Inr (Some (SelectorFromSet [])))"
    using kind get noselector lib by (simp add: selectorSwitch_def)
  show ?thesis
    using valid sw
    by (simp add: findTargetForServiceWithClient_def ListPods_Everything Let_def emit_def
        split: list.splits)
qed

theorem C10_service_without_selector_witness:
  "\<forall>conv. findTargetForServiceWithClient (labelsLib conv) (clusterClient exampleCluster)
              (worldWith bareTarget) 0 =
     Some (\<lparr>heap = [bareTarget,
                     \<lparr>Name = ''db-0'', Namespace = ''test-namespace'',
                      Kind = resourceTypePod, Port = 8080\<rparr>],
            events = [GetServiceCall ''test-namespace'' ''bare-service'',
                      ListPodsCall ''test-namespace'' [],
                      Printf (''Found matching pod: db-0 for services: bare-service'' @ [CHR 0x0A])]\<rparr>,
           1, None)"
proof
  fix conv :: "LabelSelector option \<Rightarrow> string + internalSelector"
  let ?w = "worldWith bareTarget"
  have h1: "0 < length (heap ?w)"
    by (simp add: worldWith_def)
  have h2: "Kind (heap ?w ! 0) = resourceTypeSvc"
    by (simp add: worldWith_def bareTarget_def)
  have h3: "map_of (services exampleCluster) (Namespace (heap ?w ! 0), Name (heap ?w ! 0)) =
              Some \<lparr>Spec_Selector = []\<rparr>"
    by (simp add: worldWith_def bareTarget_def exampleCluster_def)
  have h4: "Spec_Selector \<lparr>Spec_Selector = []\<rparr> = []"
    by simp
  have h5: "labels_Set_AsSelector (labelsLib conv) = SelectorFromSet"
    by (simp add: labelsLib_def)
  have p: "podsInNamespace exampleCluster ''test-namespace'' =
        [\<lparr>ObjectMeta_Name = ''db-0'', ObjectMeta_Namespace = ''test-namespace'',
          ObjectMeta_Labels = [(''app'', ''db'')]\<rparr>,
         \<lparr>ObjectMeta_Name = ''test-pod-1'', ObjectMeta_Namespace = ''test-namespace'',
          ObjectMeta_Labels = [(''app'', ''test-app''), (''tier'', ''web'')]\<rparr>,
         \<lparr>ObjectMeta_Name = ''test-pod-2'', ObjectMeta_Namespace = ''test-namespace'',
          ObjectMeta_Labels = [(''app'', ''test-app'')]\<rparr>]"
    by (simp add: podsInNamespace_def exampleCluster_def)
  show "findTargetForServiceWithClient (labelsLib conv) (clusterClient exampleCluster)
              (worldWith bareTarget) 0 =
     Some (\<lparr>heap = [bareTarget,
                     \<lparr>Name = ''db-0'', Namespace = ''test-namespace'',
                      Kind = resourceTypePod, Port = 8080\<rparr>],
            events = [GetServiceCall ''test-namespace'' ''bare-service'',
                      ListPodsCall ''test-namespace'' [],
                      Printf (''Found matching pod: db-0 for services: bare-service'' @ [CHR 0x0A])]\<rparr>,
           1, None)"
    using C10_service_without_selector [OF h1 h2 h3 h4 h5]
    by (simp add: worldWith_def bareTarget_def resourceTypeSvc_def p emit_def SelectorFromSet_def)
qed

section \<open>Properties of the tunnel session\<close>

lemma getKubernetesClient_envOK: "getKubernetesClient envOK = Inr ()"
  by (simp add: getKubernetesClient_def envOK_def)

lemma envOK_fields:
  "ClientConfig_err envOK = None" "RoundTripperFor_err envOK = None"
  "RESTClientFor_err envOK = None" "portforward_New_err envOK = None"
  "ForwardPorts_err envOK = None"
  by (simp_all add: envOK_def)

text \<open>
  For every descriptor whose kind is not \<open>services\<close>, \<open>runPortForward\<close> makes no client
  call and opens the tunnel on the descriptor as it is, whatever its kind.
\<close>

lemma runPortForward_without_resolver:
  assumes "res < length (heap w)" and "Kind (heap w ! res) \<noteq> resourceTypeSvc"
  shows "runPortForward envOK lib client w res localPort =
           (let t = heap w ! res;
                url = \<lparr>Resource = Kind t, RequestNamespace = Namespace t,
                       RequestName = Name t, SubResource = ''portforward''\<rparr>
            in Some (emit [Println_url url,
                           portforward_New url [Sprintf_d localPort @ '':'' @ Sprintf_d (Port t)],
                           ForwardPorts] w,
                     None))"
  using assms
  by (simp add: runPortForward_def getKubernetesClient_envOK envOK_fields Let_def emit_def)

text \<open>
  The callers' copy of the parsed deployment descriptor is the heap cell that the
  following example starts from.
\<close>

lemma newForwardTarget_deployment:
  "newForwardTarget \<lparr>namespace = ''test-namespace'', name = ''test-deployment'',
                     kind = resourceTypeDeployment, port = 8080\<rparr>
                    \<lparr>heap = [], events = []\<rparr> =
     (worldWith deploymentTarget, 0)"
  by (simp add: newForwardTarget_def worldWith_def deploymentTarget_def)

text \<open>
  Claim C1 at a Deployment descriptor (the one parsed from
  \<open>http://test-deployment.test-namespace.deploy:8080/api\<close>), local port 54321, on a
  cluster where the deployment exists and selects two pods, whatever the library's
  conversions are: \<open>runPortForward\<close> makes no client call, so the resolver is not
  invoked, and it opens the tunnel on the resource \<open>deployments/test-deployment\<close>. The
  descriptor handed to the tunnel has kind \<open>deployments\<close>, not \<open>pods\<close>.
\<close>

theorem C1_deployment_tunnel_unresolved:
  "runPortForward envOK lib (clusterClient exampleCluster)
       (worldWith deploymentTarget) 0 54321 =
     Some (\<lparr>heap = [deploymentTarget],
            events =
              [Println_url \<lparr>Resource = ''deployments'', RequestNamespace = ''test-namespace'',
                            RequestName = ''test-deployment'', SubResource = ''portforward''\<rparr>,
               portforward_New \<lparr>Resource = ''deployments'', RequestNamespace = ''test-namespace'',
                                RequestName = ''test-deployment'', SubResource = ''portforward''\<rparr>
                               [''54321:8080''],
               ForwardPorts]\<rparr>,
           None)"
proof -
  have h1: "0 < length (heap (worldWith deploymentTarget))"
    by (simp add: worldWith_def)
  have h2: "Kind (heap (worldWith deploymentTarget) ! 0) \<noteq> resourceTypeSvc"
    by (simp add: worldWith_def deploymentTarget_def resourceTypeDeployment_def
        resourceTypeSvc_def)
  show ?thesis
    using runPortForward_without_resolver [OF h1 h2, of lib "clusterClient exampleCluster" 54321]
    by (simp add: worldWith_def deploymentTarget_def resourceTypeDeployment_def emit_def
        Sprintf_d_54321 Sprintf_d_8080 Let_def)
qed

text \<open>
  For a Service descriptor on the same cluster the resolver is invoked and the tunnel
  is opened on the first matching pod.
\<close>

lemma runPortForward_service_resolved:
  "runPortForward envOK (labelsLib conv) (clusterClient exampleCluster)
       (worldWith serviceTarget) 0 54321 =
     Some (\<lparr>heap = [serviceTarget,
                     \<lparr>Name = ''test-pod-1'', Namespace = ''test-namespace'',
                      Kind = resourceTypePod, Port = 8080\<rparr>],
            events =
              [GetServiceCall ''test-namespace'' ''test-service'',
               ListPodsCall ''test-namespace'' [(''app'', ''test-app'')],
               Printf (''Found matching pod: test-pod-1 for services: test-service'' @ [CHR 0x0A]),
               Println_url \<lparr>Resource = ''pods'', RequestNamespace = ''test-namespace'',
                            RequestName = ''test-pod-1'', SubResource = ''portforward''\<rparr>,
               portforward_New \<lparr>Resource = ''pods'', RequestNamespace = ''test-namespace'',
                                RequestName = ''test-pod-1'', SubResource = ''portforward''\<rparr>
                               [''54321:8080''],
               ForwardPorts]\<rparr>,
           None)"
proof -
  have r: "findTargetForServiceWithClient (labelsLib conv) (clusterClient exampleCluster)
       (worldWith serviceTarget) 0 =
     Some (\<lparr>heap = [serviceTarget,
                     \<lparr>Name = ''test-pod-1'', Namespace = ''test-namespace'',
                      Kind = resourceTypePod, Port = 8080\<rparr>],
            events = [GetServiceCall ''test-namespace'' ''test-service'',
                      ListPodsCall ''test-namespace'' [(''app'', ''test-app'')],
                      Printf (''Found matching pod: test-pod-1 for services: test-service'' @ [CHR 0x0A])]\<rparr>,
           1, None)"
    by (simp add: findTargetForServiceWithClient_def selectorSwitch_def worldWith_def
        serviceTarget_def clusterClient_def getObject_def exampleCluster_def labelsLib_def
        SelectorFromSet_def podsInNamespace_def Matches_def emit_def resourceTypeSvc_def
        resourceTypePod_def Let_def)
  show ?thesis
    by (simp add: runPortForward_def getKubernetesClient_envOK findTargetForService_def r)
       (simp add: worldWith_def serviceTarget_def envOK_fields emit_def Sprintf_d_54321
          Sprintf_d_8080 resourceTypePod_def Let_def)
qed

section \<open>Properties of cancellation\<close>




end
